theory Spec2Isabelle
  imports Complex_Main "HOL-Library.Char_ord" "HOL-Library.List_Lexorder"
begin

section \<open>The booking form of \<^verbatim>\<open>client/src/pages/BookSlot.tsx\<close>\<close>

text \<open>
  The page keeps two pieces of React state that matter here: \<^verbatim>\<open>formData\<close> (the
  draft) and \<^verbatim>\<open>warnings\<close> (the verdict). Four effects recompute one warning slot
  each; \<^verbatim>\<open>handleVenueToggle\<close> edits the venue selection; \<^verbatim>\<open>handleSubmit\<close> and
  \<^verbatim>\<open>hasErrors\<close> read the warnings. Every state update of the source has the
  form \<^verbatim>\<open>setX(prev => ({ ...prev, field: v }))\<close>, so each effect is a function
  from the previous warnings to the next ones.

  JavaScript strings are modelled as \<^typ>\<open>string\<close>; \<^verbatim>\<open><\<close> and \<^verbatim>\<open><=\<close> on them are
  the lexicographic order on the character codes, which is the order of
  \<^verbatim>\<open>List_Lexorder\<close> over \<^verbatim>\<open>Char_ord\<close> for the
  ASCII strings the form holds. A string is truthy when it is not empty.
\<close>

subsection \<open>Data\<close>

text \<open>
  \<^verbatim>\<open>EventType\<close> is imported from \<^verbatim>\<open>../types\<close>; its values are the three the
  select offers and the timeline effect compares against.
\<close>

datatype EventType = closed_club | open_all | co_curricular

text \<open>
  The \<^verbatim>\<open>date\<close> field is either \<^verbatim>\<open>''\<close> or the \<^verbatim>\<open>YYYY-MM-DD\<close> string built at
  lines 127-130. It is modelled by \<open>None\<close>, or \<open>Some d\<close> with \<open>d\<close> the number of
  days from 1970-01-01 to that calendar date: \<^verbatim>\<open>new Date('YYYY-MM-DD')\<close> is midnight
  UTC of that date, \<open>d\<close> days after the epoch.
\<close>

record FormData =
  eventName :: string
  eventType :: EventType
  expectedAttendees :: string
  clubName :: string
  date :: "int option"
  startTime :: string
  endTime :: string
  venueIds :: "string list"

record Warnings =
  timeline :: string
  conflict :: string
  venue :: string
  venueType :: string
  hours :: string

text \<open>The initial state of lines 74-83 and 90-96.\<close>

definition initialFormData :: FormData where
  "initialFormData =
     \<lparr>eventName = '''', eventType = closed_club, expectedAttendees = '''',
      clubName = '''', date = None, startTime = '''', endTime = '''', venueIds = []\<rparr>"

definition initialWarnings :: Warnings where
  "initialWarnings =
     \<lparr>timeline = '''', conflict = '''', venue = '''', venueType = '''', hours = ''''\<rparr>"

text \<open>JavaScript truthiness of a string (\<^verbatim>\<open>!!s\<close>).\<close>

definition truthy :: "string \<Rightarrow> bool" where
  "truthy s = (s \<noteq> [])"

subsection \<open>Venue selection (lines 298-306)\<close>

definition handleVenueToggle :: "string \<Rightarrow> FormData \<Rightarrow> FormData" where
  "handleVenueToggle venueId prev =
     (let current = venueIds prev;
          updated = (if venueId \<in> set current
                     then filter (\<lambda>i. i \<noteq> venueId) current
                     else current @ [venueId])
      in prev\<lparr>venueIds := updated\<rparr>)"

text \<open>A run of toggles, applied from left to right.\<close>

definition toggles :: "string list \<Rightarrow> FormData \<Rightarrow> FormData" where
  "toggles vs fd = foldl (\<lambda>s v. handleVenueToggle v s) fd vs"

subsection \<open>The submission gate (lines 308-352)\<close>

definition hasErrors :: "Warnings \<Rightarrow> bool" where
  "hasErrors w = (truthy (timeline w) \<or> truthy (conflict w) \<or> truthy (hours w))"

record ApiClub =
  c_id :: string
  c_name :: string

text \<open>
  The time options of the two selects (lines 48-69): every quarter of an hour
  from 00:00 to 23:45, the hour padded to two digits. \<^verbatim>\<open>startTime\<close> and
  \<^verbatim>\<open>endTime\<close> hold the empty string or one of these.
\<close>

definition pad2 :: "nat \<Rightarrow> string" where
  "pad2 n = [''0123456789'' ! (n div 10), ''0123456789'' ! (n mod 10)]"

definition TIME_OPTIONS :: "string list" where
  "TIME_OPTIONS =
     concat (map (\<lambda>hour. map (\<lambda>minute. pad2 hour @ '':'' @ minute) [''00'', ''15'', ''30'', ''45''])
       [0..<24])"

text \<open>
  \<^verbatim>\<open>new Date(`${date}T${time}:00`)\<close> is an Invalid Date when the date is empty
  or the time is not a time of day, and \<^verbatim>\<open>toISOString()\<close> on it throws a
  RangeError. A time that is not among the options, which the form cannot
  hold apart from the empty string, counts as invalid.
\<close>

definition invalidDate :: "int option \<Rightarrow> string \<Rightarrow> bool" where
  "invalidDate d t = (d = None \<or> t \<notin> set TIME_OPTIONS)"

text \<open>
  What a call of \<^verbatim>\<open>handleSubmit\<close> ends in: the warnings toast of line 312, the
  silent return of line 316, the venue toast of line 327, the success toast,
  or the failure toast of the \<^verbatim>\<open>catch\<close> with the error that was thrown: the
  unknown club of line 321, the RangeError of \<^verbatim>\<open>toISOString()\<close> at lines 337-338
  while the request body is built, or the request itself failing.
\<close>

datatype SubmitError = InvalidClub | RangeError | RequestFailed

datatype SubmitOutcome =
  ResolveWarnings | AlreadySubmitting | SubmitFailed SubmitError | SelectVenue | Submitted

text \<open>
  \<open>postOk\<close> says whether the \<^verbatim>\<open>POST /api/bookings\<close> of lines 331-341 returns
  without throwing; it is only consulted when the call is reached.
\<close>

definition handleSubmit ::
  "ApiClub list \<Rightarrow> bool \<Rightarrow> bool \<Rightarrow> FormData \<Rightarrow> Warnings \<Rightarrow> SubmitOutcome" where
  "handleSubmit clubs postOk isSubmitting fd w =
     (if truthy (timeline w) \<or> truthy (conflict w) \<or> truthy (hours w) then ResolveWarnings
      else if isSubmitting then AlreadySubmitting
      else (case find (\<lambda>c. c_name c = clubName fd) clubs of
              None \<Rightarrow> SubmitFailed InvalidClub
            | Some selectedClub \<Rightarrow>
                if length (venueIds fd) = 0 then SelectVenue
                else if invalidDate (date fd) (startTime fd) \<or> invalidDate (date fd) (endTime fd)
                  then SubmitFailed RangeError
                else if postOk then Submitted else SubmitFailed RequestFailed))"

text \<open>The outcomes in which the request of line 331 was sent.\<close>

definition requestSent :: "SubmitOutcome \<Rightarrow> bool" where
  "requestSent outcome = (outcome = Submitted \<or> outcome = SubmitFailed RequestFailed)"

text \<open>The \<^verbatim>\<open>disabled\<close> attribute of the submit button (line 740).\<close>

definition submitDisabled :: "Warnings \<Rightarrow> bool \<Rightarrow> bool" where
  "submitDisabled w isSubmitting = (hasErrors w \<or> isSubmitting)"

subsection \<open>Dates of the platform\<close>

text \<open>
  An instant (\<^verbatim>\<open>Date.getTime()\<close>) is a number of milliseconds since the epoch.
  \<^verbatim>\<open>new Date('YYYY-MM-DD')\<close> reads a date-only string as midnight UTC.
\<close>

definition msPerDay :: int where
  "msPerDay = 1000 * 60 * 60 * 24"

definition getTime :: "int \<Rightarrow> int" where
  "getTime d = d * msPerDay"

text \<open>
  \<^verbatim>\<open>Date.getDay()\<close> is the day of the week (0 = Sunday, ..., 6 = Saturday) of the
  instant read in the local time zone of the browser. \<open>tz\<close> is that zone's
  offset from UTC in minutes (local = UTC + \<open>tz\<close>; 330 in India, -300 in New York
  in winter). 1970-01-01 was a Thursday (4).
\<close>

definition getDay :: "int \<Rightarrow> int \<Rightarrow> int" where
  "getDay tz d = ((d * 1440 + tz) div 1440 + 4) mod 7"

text \<open>
  The local calendar date of an instant (\<^verbatim>\<open>getFullYear()\<close>, \<^verbatim>\<open>getMonth()\<close>,
  \<^verbatim>\<open>getDate()\<close>, as at lines 127-129 and 528-530), as a day number.
\<close>

definition localDay :: "int \<Rightarrow> int \<Rightarrow> int" where
  "localDay tz t = (t + tz * 60000) div msPerDay"

subsection \<open>Timeline validation (lines 171-191)\<close>

text \<open>
  \<open>today\<close> is the instant \<^verbatim>\<open>new Date()\<close> returns when the effect runs.
  \<^verbatim>\<open>Math.ceil(diffTime / (1000 * 60 * 60 * 24))\<close> is taken over the reals: the
  double-precision quotient of two integers of this size rounds to the same
  ceiling.
\<close>

definition diffDays :: "int \<Rightarrow> int \<Rightarrow> int" where
  "diffDays selectedDate today =
     (let diffTime = getTime selectedDate - today
      in \<lceil>real_of_int diffTime / real_of_int msPerDay\<rceil>)"

definition timelineMessage :: "EventType \<Rightarrow> int \<Rightarrow> string" where
  "timelineMessage et dd =
     (if et = co_curricular \<and> dd < 30
        then ''Co-curricular events must be booked at least 30 days in advance.''
      else if et = open_all \<and> dd < 20
        then ''Open-for-All events must be booked at least 20 days in advance.''
      else if et = closed_club \<and> dd < 1
        then ''Closed club events must be booked at least 1 day in advance.''
      else [])"

definition timelineValidation :: "int \<Rightarrow> FormData \<Rightarrow> Warnings \<Rightarrow> Warnings" where
  "timelineValidation today fd w =
     (case date fd of
        None \<Rightarrow> w
      | Some selectedDate \<Rightarrow>
          w\<lparr>timeline := timelineMessage (eventType fd) (diffDays selectedDate today)\<rparr>)"

subsection \<open>Venue permission (lines 157-169, 193-216)\<close>

text \<open>
  A venue of the fetched list (\<^verbatim>\<open>ApiVenue\<close>) or of the static list \<^verbatim>\<open>VENUES\<close> of
  \<^verbatim>\<open>../constants\<close>; both lists are parameters of the functions below. The
  category may be missing.
\<close>

record Venue =
  v_id :: string
  v_name :: string
  v_category :: "string option"

definition normalizeVenueCategory :: "string option \<Rightarrow> string option" where
  "normalizeVenueCategory category =
     (case category of
        None \<Rightarrow> None
      | Some c \<Rightarrow>
          if \<not> truthy c then None
          else if c = ''auto_approval'' then Some ''A''
          else if c = ''needs_approval'' then Some ''B''
          else Some c)"

definition findCategory :: "Venue list \<Rightarrow> string \<Rightarrow> string option" where
  "findCategory vs i =
     (case find (\<lambda>v. v_id v = i) vs of None \<Rightarrow> None | Some v \<Rightarrow> v_category v)"

definition getVenueCategory :: "Venue list \<Rightarrow> Venue list \<Rightarrow> string \<Rightarrow> string option" where
  "getVenueCategory venues VENUES i =
     (let apiCategory = findCategory venues i;
          normalized = normalizeVenueCategory apiCategory
      in case normalized of
           Some c \<Rightarrow> Some c
         | None \<Rightarrow> findCategory VENUES i)"

definition isCategoryB :: "string option \<Rightarrow> bool" where
  "isCategoryB c = (c = Some ''B'' \<or> c = Some ''needs_approval'')"

definition venuePermission ::
  "Venue list \<Rightarrow> Venue list \<Rightarrow> FormData \<Rightarrow> Warnings \<Rightarrow> Warnings" where
  "venuePermission venues VENUES fd w =
     (if length (venueIds fd) = 0 then w\<lparr>venue := [], venueType := []\<rparr>
      else
        let categories = map (getVenueCategory venues VENUES) (venueIds fd);
            hasCategoryB = list_ex isCategoryB categories
        in if hasCategoryB
           then w\<lparr>venue := ''Includes Category B Venue(s): Requires Sleazzy Convener & Faculty Approval.'',
                  venueType := ''warning''\<rparr>
           else w\<lparr>venue := ''Category A Venues: Direct booking available (Subject to vacancy).'',
                  venueType := ''success''\<rparr>)"

subsection \<open>Operating hours (lines 218-247)\<close>

definition hoursMessage :: "bool \<Rightarrow> string \<Rightarrow> string \<Rightarrow> string" where
  "hoursMessage isWeekend start endT =
     (if endT \<le> start then ''End time must be after start time.''
      else if isWeekend then
        (if start < ''08:00''
         then ''On weekends, bookings are allowed from 8:00 AM to 12:00 AM.'' else [])
      else
        (if start < ''16:00''
         then ''On weekdays, bookings are only allowed from 4:00 PM to 12:00 AM.'' else []))"

definition operatingHours :: "int \<Rightarrow> FormData \<Rightarrow> Warnings \<Rightarrow> Warnings" where
  "operatingHours tz fd w =
     (case date fd of
        None \<Rightarrow> w\<lparr>hours := []\<rparr>
      | Some d \<Rightarrow>
          if \<not> truthy (startTime fd) \<or> \<not> truthy (endTime fd) then w\<lparr>hours := []\<rparr>
          else
            let day = getDay tz d;
                isWeekend = (day = 0 \<or> day = 6)
            in w\<lparr>hours := hoursMessage isWeekend (startTime fd) (endTime fd)\<rparr>)"

subsection \<open>Conflict check (lines 249-292)\<close>

text \<open>
  The request of \<^verbatim>\<open>checkConflicts\<close>. The two instants are kept as the local date
  and time of day they are built from; \<^verbatim>\<open>venueIds\<close> is only appended for a
  non-empty selection.
\<close>

record ConflictQuery =
  q_date :: int
  q_startTime :: string
  q_endTime :: string
  q_clubId :: string
  q_venueIds :: "string option"

fun join :: "string list \<Rightarrow> string" where
  "join [] = []"
| "join [x] = x"
| "join (x # y # ys) = x @ '','' @ join (y # ys)"

definition buildQuery :: "ApiClub list \<Rightarrow> FormData \<Rightarrow> int \<Rightarrow> ConflictQuery" where
  "buildQuery clubs fd d =
     \<lparr>q_date = d, q_startTime = startTime fd, q_endTime = endTime fd,
      q_clubId = (case find (\<lambda>c. c_name c = clubName fd) clubs of
                    None \<Rightarrow> [] | Some c \<Rightarrow> c_id c),
      q_venueIds = (if length (venueIds fd) > 0 then Some (join (venueIds fd)) else None)\<rparr>"

text \<open>
  What the \<^verbatim>\<open>try\<close> block of \<^verbatim>\<open>checkConflicts\<close> ends in: an exception (the
  request failed), or the response \<^verbatim>\<open>{ hasConflict, message }\<close>.
\<close>

datatype ApiResult = Threw | Response bool string

text \<open>The continuation after the \<^verbatim>\<open>await\<close> (lines 280-288).\<close>

definition checkConflictsResult :: "ApiResult \<Rightarrow> Warnings \<Rightarrow> Warnings" where
  "checkConflictsResult r w =
     (case r of
        Response hasConflict message \<Rightarrow>
          if hasConflict then w\<lparr>conflict := message\<rparr> else w\<lparr>conflict := []\<rparr>
      | Threw \<Rightarrow>
          w\<lparr>conflict := ''Could not verify conflicts. Please check your connection and try again.''\<rparr>)"

text \<open>
  The page with its requests in flight. The effect either clears the slot at
  once or sends a request and returns; a request in flight is settled later,
  in any order, by \<open>settle\<close>, which runs the continuation on the warnings of
  that moment. \<open>api\<close> is the scheduling authority. The second test of line
  260 repeats part of the first on the same snapshot and never fires.
\<close>

record Session =
  warnings :: Warnings
  inflight :: "ConflictQuery list"

definition conflictLogic :: "ApiClub list \<Rightarrow> FormData \<Rightarrow> Session \<Rightarrow> Session" where
  "conflictLogic clubs fd s =
     (case date fd of
        None \<Rightarrow> s\<lparr>warnings := (warnings s)\<lparr>conflict := []\<rparr>\<rparr>
      | Some d \<Rightarrow>
          if \<not> truthy (startTime fd) \<or> \<not> truthy (endTime fd) \<or> \<not> truthy (clubName fd)
          then s\<lparr>warnings := (warnings s)\<lparr>conflict := []\<rparr>\<rparr>
          else s\<lparr>inflight := inflight s @ [buildQuery clubs fd d]\<rparr>)"

definition settle :: "(ConflictQuery \<Rightarrow> ApiResult) \<Rightarrow> nat \<Rightarrow> Session \<Rightarrow> Session" where
  "settle api i s =
     (if i < length (inflight s)
      then \<lparr>warnings = checkConflictsResult (api (inflight s ! i)) (warnings s),
            inflight = take i (inflight s) @ drop (Suc i) (inflight s)\<rparr>
      else s)"

subsection \<open>All four effects\<close>

text \<open>
  The effects in the order the component declares them, as React runs them
  after a render in which the inputs of all of them changed, with the conflict
  request settled at once.
\<close>

definition runEffects ::
  "int \<Rightarrow> int \<Rightarrow> Venue list \<Rightarrow> Venue list \<Rightarrow> ApiClub list \<Rightarrow>
   (ConflictQuery \<Rightarrow> ApiResult) \<Rightarrow> FormData \<Rightarrow> Warnings \<Rightarrow> Warnings" where
  "runEffects tz today venues VENUES clubs api fd w =
     (let w1 = timelineValidation today fd w;
          w2 = venuePermission venues VENUES fd w1;
          w3 = operatingHours tz fd w2;
          s = conflictLogic clubs fd \<lparr>warnings = w3, inflight = []\<rparr>
      in warnings (settle api 0 s))"

subsection \<open>The page as a transition system\<close>

text \<open>
  Everything that writes \<^verbatim>\<open>formData\<close>: \<^verbatim>\<open>handleChange\<close> from the inputs and selects
  (lines 406, 412, 430, 477, 549, 581) and from the effect of line 100 for the
  club name, the calendar effect of lines 124-135, which writes the formatted
  date of the day picked, and \<^verbatim>\<open>handleVenueToggle\<close>. \<open>Settle i\<close> is the answer
  to the request in flight at position \<open>i\<close>.
\<close>

datatype Event =
  ChangeEventName string
| ChangeEventType EventType
| ChangeExpectedAttendees string
| ChangeClubName string
| SelectDate int
| ChangeStartTime string
| ChangeEndTime string
| ToggleVenue string
| Settle nat

fun applyEvent :: "Event \<Rightarrow> FormData \<Rightarrow> FormData" where
  "applyEvent (ChangeEventName v) fd = fd\<lparr>eventName := v\<rparr>"
| "applyEvent (ChangeEventType v) fd = fd\<lparr>eventType := v\<rparr>"
| "applyEvent (ChangeExpectedAttendees v) fd = fd\<lparr>expectedAttendees := v\<rparr>"
| "applyEvent (ChangeClubName v) fd = fd\<lparr>clubName := v\<rparr>"
| "applyEvent (SelectDate d) fd = fd\<lparr>date := Some d\<rparr>"
| "applyEvent (ChangeStartTime v) fd = fd\<lparr>startTime := v\<rparr>"
| "applyEvent (ChangeEndTime v) fd = fd\<lparr>endTime := v\<rparr>"
| "applyEvent (ToggleVenue v) fd = handleVenueToggle v fd"
| "applyEvent (Settle i) fd = fd"

fun isToggle :: "Event \<Rightarrow> bool" where
  "isToggle (ToggleVenue v) = True"
| "isToggle e = False"

text \<open>
  What surrounds the page when an event happens: the time zone, the instant,
  the two venue lists, the clubs and the scheduling authority.
\<close>

record Env =
  e_tz :: int
  e_now :: int
  e_venues :: "Venue list"
  e_static :: "Venue list"
  e_clubs :: "ApiClub list"
  e_api :: "ConflictQuery \<Rightarrow> ApiResult"

record Page =
  p_form :: FormData
  p_session :: Session

text \<open>
  After a render React runs, in the order of declaration, the effects one of
  whose dependencies changed. A toggle always makes a new \<^verbatim>\<open>venueIds\<close> array;
  the other writes keep the array.
\<close>

definition rerun :: "Env \<Rightarrow> bool \<Rightarrow> FormData \<Rightarrow> FormData \<Rightarrow> Session \<Rightarrow> Session" where
  "rerun env toggled old new s =
     (let s1 = (if date new \<noteq> date old \<or> eventType new \<noteq> eventType old
                then s\<lparr>warnings := timelineValidation (e_now env) new (warnings s)\<rparr> else s);
          s2 = (if toggled
                then s1\<lparr>warnings := venuePermission (e_venues env) (e_static env) new (warnings s1)\<rparr>
                else s1);
          s3 = (if date new \<noteq> date old \<or> startTime new \<noteq> startTime old
                   \<or> endTime new \<noteq> endTime old
                then s2\<lparr>warnings := operatingHours (e_tz env) new (warnings s2)\<rparr> else s2)
      in if date new \<noteq> date old \<or> startTime new \<noteq> startTime old
            \<or> endTime new \<noteq> endTime old \<or> clubName new \<noteq> clubName old \<or> toggled
         then conflictLogic (e_clubs env) new s3 else s3)"

definition step :: "Env \<Rightarrow> Event \<Rightarrow> Page \<Rightarrow> Page" where
  "step env e p =
     (case e of
        Settle i \<Rightarrow> p\<lparr>p_session := settle (e_api env) i (p_session p)\<rparr>
      | _ \<Rightarrow>
          let new = applyEvent e (p_form p)
          in \<lparr>p_form = new, p_session = rerun env (isToggle e) (p_form p) new (p_session p)\<rparr>)"

fun run :: "(Env \<times> Event) list \<Rightarrow> Page \<Rightarrow> Page" where
  "run [] p = p"
| "run ((env, e) # es) p = run es (step env e p)"

text \<open>
  The page once mounted: on the initial draft the four effects leave the
  initial warnings as they are and send nothing.
\<close>

definition initialPage :: Page where
  "initialPage =
     \<lparr>p_form = initialFormData, p_session = \<lparr>warnings = initialWarnings, inflight = []\<rparr>\<rparr>"

subsection \<open>Example data\<close>

text \<open>
  Concrete inputs for the examples below. \<open>noon_2026_11_02\<close> is the instant
  2026-11-02T12:00:00Z. Day 20759 is Monday 2026-11-02, day 20761 is Wednesday
  2026-11-04, day 20789 is 2026-12-02, and day 20764 is Saturday 2026-11-07.
\<close>

definition noon_2026_11_02 :: int where
  "noon_2026_11_02 = 1793620800000"

definition exampleClubs :: "ApiClub list" where
  "exampleClubs = [\<lparr>c_id = ''c1'', c_name = ''Chess Club''\<rparr>]"

definition exampleVenues :: "Venue list" where
  "exampleVenues =
     [\<lparr>v_id = ''v1'', v_name = ''Lecture Hall'', v_category = Some ''auto_approval''\<rparr>,
      \<lparr>v_id = ''v2'', v_name = ''Auditorium'', v_category = Some ''needs_approval''\<rparr>,
      \<lparr>v_id = ''v3'', v_name = ''Lawn'', v_category = None\<rparr>]"

definition exampleStaticVenues :: "Venue list" where
  "exampleStaticVenues =
     [\<lparr>v_id = ''v3'', v_name = ''Lawn'', v_category = Some ''A''\<rparr>,
      \<lparr>v_id = ''v4'', v_name = ''Cafeteria'', v_category = Some ''B''\<rparr>]"

definition draftD1 :: FormData where
  "draftD1 =
     \<lparr>eventName = ''Blitz night'', eventType = closed_club, expectedAttendees = ''40'',
      clubName = ''Chess Club'', date = Some 20761, startTime = ''17:00'',
      endTime = ''18:00'', venueIds = [''v1'']\<rparr>"

definition draftD2 :: FormData where
  "draftD2 = draftD1\<lparr>startTime := ''18:00'', endTime := ''19:00''\<rparr>"

text \<open>An authority that holds one booking, overlapping the window of \<open>draftD1\<close> only.\<close>

definition exampleAuthority :: "ConflictQuery \<Rightarrow> ApiResult" where
  "exampleAuthority q =
     (if q_startTime q = ''17:00'' then Response True ''Lecture Hall is already booked.''
      else Response False [])"

definition saturdayDraft :: FormData where
  "saturdayDraft =
     \<lparr>eventName = ''Blitz night'', eventType = closed_club, expectedAttendees = ''40'',
      clubName = ''Chess Club'', date = Some 20764, startTime = ''09:00'',
      endTime = ''10:00'', venueIds = [''v1'']\<rparr>"

text \<open>
  A closed-club draft for the day of evaluation itself, and the same after
  \<^verbatim>\<open>handleChange('date', '')\<close>.
\<close>

definition sameDayDraft :: FormData where
  "sameDayDraft = draftD1\<lparr>date := Some 20759\<rparr>"

definition clearedDraft :: FormData where
  "clearedDraft = sameDayDraft\<lparr>date := None\<rparr>"

text \<open>
  The surroundings at UTC+5:30 at noon UTC of 2026-11-02, and the instants
  2026-11-02T19:30Z and 2026-11-03T01:30Z, which are 01:00 and 07:00 of the same
  local day 2026-11-03 (day 20760) at UTC+5:30.
\<close>

definition exampleEnv :: Env where
  "exampleEnv =
     \<lparr>e_tz = 330, e_now = noon_2026_11_02, e_venues = exampleVenues,
      e_static = exampleStaticVenues, e_clubs = exampleClubs, e_api = exampleAuthority\<rparr>"

definition one_am_local :: int where
  "one_am_local = 1793647800000"

definition seven_am_local :: int where
  "seven_am_local = 1793669400000"

section \<open>Properties\<close>

subsection \<open>Venue selection\<close>

lemma handleVenueToggle_distinct:
  "distinct (venueIds fd) \<Longrightarrow> distinct (venueIds (handleVenueToggle v fd))"
  by (simp add: handleVenueToggle_def Let_def)

lemma toggles_distinct:
  "distinct (venueIds fd) \<Longrightarrow> distinct (venueIds (toggles vs fd))"
  unfolding toggles_def
  by (induction vs arbitrary: fd) (simp_all add: handleVenueToggle_distinct)

text \<open>
  Claim C9. The selected venue identifiers never hold a duplicate: from the
  empty selection of the initial draft, every run of \<^verbatim>\<open>handleVenueToggle\<close> calls
  leaves the list duplicate-free, and one call keeps a duplicate-free list
  duplicate-free. Toggling an identifier that is selected removes it; toggling
  one that is not appends it once at the end.
\<close>

theorem venue_selection_never_duplicates:
  "distinct (venueIds (toggles vs initialFormData))
   \<and> (distinct (venueIds fd) \<longrightarrow> distinct (venueIds (handleVenueToggle v fd)))
   \<and> (v \<in> set (venueIds fd) \<longrightarrow>
        venueIds (handleVenueToggle v fd) = filter (\<lambda>i. i \<noteq> v) (venueIds fd)
        \<and> v \<notin> set (venueIds (handleVenueToggle v fd)))
   \<and> (v \<notin> set (venueIds fd) \<longrightarrow> venueIds (handleVenueToggle v fd) = venueIds fd @ [v])"
proof -
  have "distinct (venueIds initialFormData)" by (simp add: initialFormData_def)
  then have "distinct (venueIds (toggles vs initialFormData))" by (rule toggles_distinct)
  moreover have "distinct (venueIds fd) \<longrightarrow> distinct (venueIds (handleVenueToggle v fd))"
    by (simp add: handleVenueToggle_distinct)
  moreover have "v \<in> set (venueIds fd) \<longrightarrow>
        venueIds (handleVenueToggle v fd) = filter (\<lambda>i. i \<noteq> v) (venueIds fd)
        \<and> v \<notin> set (venueIds (handleVenueToggle v fd))"
    by (simp add: handleVenueToggle_def)
  moreover have "v \<notin> set (venueIds fd) \<longrightarrow> venueIds (handleVenueToggle v fd) = venueIds fd @ [v]"
    by (simp add: handleVenueToggle_def)
  ultimately show ?thesis by blast
qed

text \<open>
  The run v1, v2, v1, v3 from the initial draft selects v2 and v3; on a draft
  that selects v1, toggling v1 empties the selection and toggling v2 appends it.
\<close>

theorem venue_selection_never_duplicates_witness:
  "venueIds (toggles [''v1'', ''v2'', ''v1'', ''v3''] initialFormData) = [''v2'', ''v3'']
   \<and> distinct (venueIds (toggles [''v1'', ''v2'', ''v1'', ''v3''] initialFormData))
   \<and> venueIds (handleVenueToggle ''v1'' draftD1) = []
   \<and> venueIds (handleVenueToggle ''v2'' draftD1) = [''v1'', ''v2'']"
  using venue_selection_never_duplicates [of "[''v1'', ''v2'', ''v1'', ''v3'']" draftD1 "''v1''"]
    venue_selection_never_duplicates [of "[]" draftD1 "''v2''"]
  by (simp add: toggles_def handleVenueToggle_def initialFormData_def draftD1_def)

subsection \<open>The submission gate\<close>

lemma TIME_OPTIONS_eval:
  "''17:00'' \<in> set TIME_OPTIONS" "''18:00'' \<in> set TIME_OPTIONS"
  "[] \<notin> set TIME_OPTIONS"
  by (simp_all add: TIME_OPTIONS_def pad2_def upt_rec)

text \<open>
  Claim C1, as stated, fails in its last part: the submit action is also
  stopped when none of the three warnings is present. With the initial, empty
  warnings a submission while another is in flight returns silently (and the
  button is disabled), one without a venue ends in the venue toast, one whose
  club is not a fetched club or whose date is empty ends in the failure toast;
  none of them sends the request.
\<close>

theorem submit_blocked_without_warnings:
  "\<not> hasErrors initialWarnings
   \<and> handleSubmit exampleClubs True True draftD1 initialWarnings = AlreadySubmitting
   \<and> submitDisabled initialWarnings True
   \<and> handleSubmit exampleClubs True False (draftD1\<lparr>venueIds := []\<rparr>) initialWarnings = SelectVenue
   \<and> handleSubmit exampleClubs True False (draftD1\<lparr>clubName := ''Go Club''\<rparr>) initialWarnings
       = SubmitFailed InvalidClub
   \<and> handleSubmit exampleClubs True False (draftD1\<lparr>date := None\<rparr>) initialWarnings
       = SubmitFailed RangeError"
  by (simp add: hasErrors_def truthy_def initialWarnings_def handleSubmit_def submitDisabled_def
      exampleClubs_def draftD1_def invalidDate_def)

text \<open>
  Claim C1, amended. \<^verbatim>\<open>hasErrors\<close> holds if and only if the Timeline, Hours or
  Conflict message is not empty; the venue message and its tag have no effect
  on it nor on the outcome of \<^verbatim>\<open>handleSubmit\<close>. Whenever \<^verbatim>\<open>hasErrors\<close> holds the
  submit action is blocked: \<^verbatim>\<open>handleSubmit\<close> ends in the resolve-the-warnings
  toast (and only then), and no request is sent. With no warning present the
  request is sent exactly when, in addition, no submission is in flight, the
  club name is that of a fetched club, at least one venue is selected, and the
  date and both times are set. The submit button is disabled exactly when
  \<^verbatim>\<open>hasErrors\<close> holds or a submission is in flight.
\<close>

theorem submission_gate_and_later_checks:
  "hasErrors w = (timeline w \<noteq> [] \<or> hours w \<noteq> [] \<or> conflict w \<noteq> [])
   \<and> hasErrors (w\<lparr>venue := m, venueType := t\<rparr>) = hasErrors w
   \<and> handleSubmit clubs postOk isSubmitting fd (w\<lparr>venue := m, venueType := t\<rparr>)
       = handleSubmit clubs postOk isSubmitting fd w
   \<and> (handleSubmit clubs postOk isSubmitting fd w = ResolveWarnings) = hasErrors w
   \<and> (hasErrors w \<longrightarrow> \<not> requestSent (handleSubmit clubs postOk isSubmitting fd w))
   \<and> requestSent (handleSubmit clubs postOk isSubmitting fd w)
       = (\<not> hasErrors w \<and> \<not> isSubmitting
          \<and> find (\<lambda>c. c_name c = clubName fd) clubs \<noteq> None
          \<and> venueIds fd \<noteq> []
          \<and> date fd \<noteq> None
          \<and> startTime fd \<in> set TIME_OPTIONS \<and> endTime fd \<in> set TIME_OPTIONS)
   \<and> submitDisabled w isSubmitting = (hasErrors w \<or> isSubmitting)"
proof -
  have gate: "hasErrors w = (timeline w \<noteq> [] \<or> hours w \<noteq> [] \<or> conflict w \<noteq> [])"
    by (auto simp add: hasErrors_def truthy_def)
  have venue1: "hasErrors (w\<lparr>venue := m, venueType := t\<rparr>) = hasErrors w"
    by (simp add: hasErrors_def)
  have venue2: "handleSubmit clubs postOk isSubmitting fd (w\<lparr>venue := m, venueType := t\<rparr>)
       = handleSubmit clubs postOk isSubmitting fd w"
    by (simp add: handleSubmit_def)
  have toast: "(handleSubmit clubs postOk isSubmitting fd w = ResolveWarnings) = hasErrors w"
    by (auto simp add: handleSubmit_def hasErrors_def split: option.splits)
  have sent: "requestSent (handleSubmit clubs postOk isSubmitting fd w)
       = (\<not> hasErrors w \<and> \<not> isSubmitting
          \<and> find (\<lambda>c. c_name c = clubName fd) clubs \<noteq> None
          \<and> venueIds fd \<noteq> []
          \<and> date fd \<noteq> None
          \<and> startTime fd \<in> set TIME_OPTIONS \<and> endTime fd \<in> set TIME_OPTIONS)"
    by (auto simp add: handleSubmit_def hasErrors_def requestSent_def invalidDate_def
        split: option.splits)
  have disabled: "submitDisabled w isSubmitting = (hasErrors w \<or> isSubmitting)"
    by (simp add: submitDisabled_def)
  from gate venue1 venue2 toast sent disabled show ?thesis by blast
qed

text \<open>
  An Hours message blocks the submission of \<open>draftD1\<close>; the Category B venue
  message alone does not, and the request is sent.
\<close>

theorem submission_gate_and_later_checks_witness:
  "hasErrors (initialWarnings\<lparr>hours := ''End time must be after start time.''\<rparr>)
   \<and> handleSubmit exampleClubs True False draftD1
        (initialWarnings\<lparr>hours := ''End time must be after start time.''\<rparr>) = ResolveWarnings
   \<and> \<not> hasErrors (initialWarnings\<lparr>venue := ''Includes Category B Venue(s): Requires Sleazzy Convener & Faculty Approval.'', venueType := ''warning''\<rparr>)
   \<and> handleSubmit exampleClubs True False draftD1
        (initialWarnings\<lparr>venue := ''Includes Category B Venue(s): Requires Sleazzy Convener & Faculty Approval.'', venueType := ''warning''\<rparr>) = Submitted
   \<and> requestSent (handleSubmit exampleClubs True False draftD1 initialWarnings)"
  using submission_gate_and_later_checks [where w = "initialWarnings\<lparr>hours := ''End time must be after start time.''\<rparr>"
      and clubs = exampleClubs and postOk = True and isSubmitting = False and fd = draftD1]
    submission_gate_and_later_checks [where w = initialWarnings
      and m = "''Includes Category B Venue(s): Requires Sleazzy Convener & Faculty Approval.''"
      and t = "''warning''"
      and clubs = exampleClubs and postOk = True and isSubmitting = False and fd = draftD1]
  by (simp add: initialWarnings_def hasErrors_def handleSubmit_def truthy_def exampleClubs_def
      draftD1_def invalidDate_def TIME_OPTIONS_eval requestSent_def)

subsection \<open>Lead time\<close>

lemma diffDays_calendar: "diffDays d today = d - today div msPerDay"
proof -
  have "diffDays d today = - ((- (d * msPerDay - today)) div msPerDay)"
    unfolding diffDays_def getTime_def Let_def by (rule ceiling_divide_eq_div)
  also have "- (d * msPerDay - today) = today + (- d) * msPerDay" by simp
  also have "(today + (- d) * msPerDay) div msPerDay = today div msPerDay + (- d)"
    by (simp add: msPerDay_def)
  finally show ?thesis by simp
qed

text \<open>
  With a date selected, the timeline effect computes \<^verbatim>\<open>diffDays\<close> as the ceiling
  of (date - today) over one day (86400000 ms), which is the day number of the
  selected date minus the day number of the UTC date of the instant \<open>today\<close>.
  The Timeline slot then holds the message of the event type when \<^verbatim>\<open>diffDays\<close>
  is below its threshold (co-curricular 30, open-for-all 20, closed club 1)
  and the empty string otherwise.
\<close>

theorem lead_time_policy:
  "date fd = Some d \<Longrightarrow>
   diffDays d today = \<lceil>(real_of_int (getTime d) - real_of_int today) / 86400000\<rceil>
   \<and> diffDays d today = d - today div 86400000
   \<and> timeline (timelineValidation today fd w) =
       (case eventType fd of
          co_curricular \<Rightarrow>
            if diffDays d today < 30
            then ''Co-curricular events must be booked at least 30 days in advance.'' else []
        | open_all \<Rightarrow>
            if diffDays d today < 20
            then ''Open-for-All events must be booked at least 20 days in advance.'' else []
        | closed_club \<Rightarrow>
            if diffDays d today < 1
            then ''Closed club events must be booked at least 1 day in advance.'' else [])"
proof -
  assume sel: "date fd = Some d"
  have ceil: "diffDays d today = \<lceil>(real_of_int (getTime d) - real_of_int today) / 86400000\<rceil>"
    by (simp add: diffDays_def msPerDay_def)
  have cal: "diffDays d today = d - today div 86400000"
    using diffDays_calendar [of d today] by (simp add: msPerDay_def)
  have msg: "timeline (timelineValidation today fd w) = timelineMessage (eventType fd) (diffDays d today)"
    using sel by (simp add: timelineValidation_def)
  have tab: "timelineMessage (eventType fd) (diffDays d today) =
       (case eventType fd of
          co_curricular \<Rightarrow>
            if diffDays d today < 30
            then ''Co-curricular events must be booked at least 30 days in advance.'' else []
        | open_all \<Rightarrow>
            if diffDays d today < 20
            then ''Open-for-All events must be booked at least 20 days in advance.'' else []
        | closed_club \<Rightarrow>
            if diffDays d today < 1
            then ''Closed club events must be booked at least 1 day in advance.'' else [])"
    by (cases "eventType fd") (simp_all add: timelineMessage_def)
  from ceil cal msg tab show ?thesis by simp
qed

text \<open>
  Evaluated at noon UTC of 2026-11-02: a co-curricular event on 2026-12-01 is
  29 days ahead and is warned about, one on 2026-12-02 is 30 days ahead and is
  not; a closed-club event on 2026-11-02 itself is warned about.
\<close>

theorem lead_time_policy_witness:
  "timeline (timelineValidation noon_2026_11_02 (draftD1\<lparr>eventType := co_curricular, date := Some 20788\<rparr>) initialWarnings)
     = ''Co-curricular events must be booked at least 30 days in advance.''
   \<and> timeline (timelineValidation noon_2026_11_02 (draftD1\<lparr>eventType := co_curricular, date := Some 20789\<rparr>) initialWarnings) = []
   \<and> diffDays 20789 noon_2026_11_02 = 30
   \<and> timeline (timelineValidation noon_2026_11_02 sameDayDraft initialWarnings)
     = ''Closed club events must be booked at least 1 day in advance.''"
  using lead_time_policy [of "draftD1\<lparr>eventType := co_curricular, date := Some 20788\<rparr>" 20788 noon_2026_11_02 initialWarnings]
    lead_time_policy [of "draftD1\<lparr>eventType := co_curricular, date := Some 20789\<rparr>" 20789 noon_2026_11_02 initialWarnings]
    lead_time_policy [of sameDayDraft 20759 noon_2026_11_02 initialWarnings]
  by (simp add: draftD1_def sameDayDraft_def noon_2026_11_02_def getTime_def msPerDay_def)

text \<open>
  Claim C2. The thresholds and messages are as claimed, but \<^verbatim>\<open>diffDays\<close> does
  not count in the calendar dates of the page. The selected date is the local
  calendar date of the day picked, while \<open>today\<close> is counted by its UTC date.
  At UTC+5:30, on the one local day 2026-11-03, a closed-club booking for that
  same day gets \<^verbatim>\<open>diffDays\<close> 1 and no message at 01:00 (19:30 of the day before
  in UTC), and \<^verbatim>\<open>diffDays\<close> 0 and the one-day message at 07:00: the hour of the
  day decides.
\<close>

theorem lead_time_changes_within_one_local_day:
  "localDay 330 one_am_local = 20760
   \<and> localDay 330 seven_am_local = 20760
   \<and> diffDays 20760 one_am_local = 1
   \<and> diffDays 20760 seven_am_local = 0
   \<and> timeline (timelineValidation one_am_local (draftD1\<lparr>date := Some 20760\<rparr>) initialWarnings) = []
   \<and> timeline (timelineValidation seven_am_local (draftD1\<lparr>date := Some 20760\<rparr>) initialWarnings)
       = ''Closed club events must be booked at least 1 day in advance.''"
  by (simp add: localDay_def diffDays_calendar msPerDay_def one_am_local_def seven_am_local_def
      timelineValidation_def timelineMessage_def draftD1_def)

text \<open>The same-day booking is submittable at 01:00 and blocked at 07:00.\<close>

theorem lead_time_changes_within_one_local_day_witness:
  "\<not> hasErrors (timelineValidation one_am_local (draftD1\<lparr>date := Some 20760\<rparr>) initialWarnings)
   \<and> hasErrors (timelineValidation seven_am_local (draftD1\<lparr>date := Some 20760\<rparr>) initialWarnings)"
  using lead_time_changes_within_one_local_day
  by (simp add: hasErrors_def truthy_def timelineValidation_def timelineMessage_def draftD1_def
      initialWarnings_def)

lemma timelineValidation_no_date: "date fd = None \<Longrightarrow> timelineValidation today fd w = w"
  by (simp add: timelineValidation_def)

subsection \<open>Operating hours\<close>

text \<open>
  Claim C3. The hours effect classifies the date by \<^verbatim>\<open>getDay()\<close>, which reads the
  UTC midnight of the date in the local time zone. West of UTC that instant
  lies on the evening before: at UTC-5 the Saturday 2026-11-07 is read as a
  Friday (5), and a booking from 09:00 to 10:00 gets the weekday message,
  where a Saturday booking starting at or after 08:00 should get none. At
  UTC+5:30 the same draft is read as a Saturday (6) and gets none.
\<close>

theorem saturday_read_as_weekday:
  "getDay (- 300) 20764 = 5
   \<and> hours (operatingHours (- 300) saturdayDraft initialWarnings)
       = ''On weekdays, bookings are only allowed from 4:00 PM to 12:00 AM.''
   \<and> getDay 330 20764 = 6
   \<and> hours (operatingHours 330 saturdayDraft initialWarnings) = []"
  by (simp add: operatingHours_def saturdayDraft_def truthy_def getDay_def hoursMessage_def)

text \<open>The same draft is blocked at UTC-5 and submittable at UTC+5:30.\<close>

theorem saturday_read_as_weekday_witness:
  "hasErrors (operatingHours (- 300) saturdayDraft initialWarnings)
   \<and> \<not> hasErrors (operatingHours 330 saturdayDraft initialWarnings)"
  using saturday_read_as_weekday
  by (simp add: hasErrors_def truthy_def operatingHours_def saturdayDraft_def initialWarnings_def
      getDay_def hoursMessage_def)

text \<open>
  At or east of UTC (an offset from 0 up to, not including, 24 hours) the local
  day of the week is that of the date itself, \<open>(d + 4) mod 7\<close>.
\<close>

lemma getDay_east_of_utc: "0 \<le> tz \<Longrightarrow> tz < 1440 \<Longrightarrow> getDay tz d = (d + 4) mod 7"
proof -
  assume "0 \<le> tz" "tz < 1440"
  then have "(d * 1440 + tz) div 1440 = d" by simp
  then show ?thesis by (simp add: getDay_def)
qed

text \<open>
  With date, start and end present and the time zone at or east of UTC, the
  Hours slot is: the ordering message when end <= start, whatever the day;
  otherwise on a Saturday or Sunday the weekend message exactly when start <
  "08:00", on a weekday the weekday message exactly when start < "16:00", and
  the empty string in all other cases. Only the start is checked against the
  opening hour.
\<close>

theorem operating_hours_east_of_utc:
  "0 \<le> tz \<Longrightarrow> tz < 1440 \<Longrightarrow> date fd = Some d \<Longrightarrow> startTime fd \<noteq> [] \<Longrightarrow> endTime fd \<noteq> [] \<Longrightarrow>
   hours (operatingHours tz fd w) =
     (if endTime fd \<le> startTime fd then ''End time must be after start time.''
      else if (d + 4) mod 7 = 6 \<or> (d + 4) mod 7 = 0 then
        (if startTime fd < ''08:00''
         then ''On weekends, bookings are allowed from 8:00 AM to 12:00 AM.'' else [])
      else
        (if startTime fd < ''16:00''
         then ''On weekdays, bookings are only allowed from 4:00 PM to 12:00 AM.'' else []))"
  by (simp add: operatingHours_def truthy_def getDay_east_of_utc hoursMessage_def Let_def)

text \<open>
  At UTC+5:30: Saturday 07:59 is refused and 08:00 accepted, Wednesday 15:59 is
  refused and 16:00 accepted, and an end equal to the start is refused.
\<close>

theorem operating_hours_east_of_utc_witness:
  "hours (operatingHours 330 (saturdayDraft\<lparr>startTime := ''07:59''\<rparr>) initialWarnings)
     = ''On weekends, bookings are allowed from 8:00 AM to 12:00 AM.''
   \<and> hours (operatingHours 330 (saturdayDraft\<lparr>startTime := ''08:00''\<rparr>) initialWarnings) = []
   \<and> hours (operatingHours 330 (draftD1\<lparr>startTime := ''15:59''\<rparr>) initialWarnings)
     = ''On weekdays, bookings are only allowed from 4:00 PM to 12:00 AM.''
   \<and> hours (operatingHours 330 (draftD1\<lparr>startTime := ''16:00''\<rparr>) initialWarnings) = []
   \<and> hours (operatingHours 330 (saturdayDraft\<lparr>endTime := ''09:00''\<rparr>) initialWarnings)
     = ''End time must be after start time.''"
  using operating_hours_east_of_utc [of 330 "saturdayDraft\<lparr>startTime := ''07:59''\<rparr>" 20764 initialWarnings]
    operating_hours_east_of_utc [of 330 "saturdayDraft\<lparr>startTime := ''08:00''\<rparr>" 20764 initialWarnings]
    operating_hours_east_of_utc [of 330 "draftD1\<lparr>startTime := ''15:59''\<rparr>" 20761 initialWarnings]
    operating_hours_east_of_utc [of 330 "draftD1\<lparr>startTime := ''16:00''\<rparr>" 20761 initialWarnings]
    operating_hours_east_of_utc [of 330 "saturdayDraft\<lparr>endTime := ''09:00''\<rparr>" 20764 initialWarnings]
  by (simp add: saturdayDraft_def draftD1_def)

subsection \<open>Venue permission\<close>

lemma getVenueCategory_fetched_B:
  "findCategory venues i = Some ''B'' \<or> findCategory venues i = Some ''needs_approval''
   \<Longrightarrow> getVenueCategory venues VENUES i = Some ''B''"
  by (auto simp add: getVenueCategory_def normalizeVenueCategory_def truthy_def)

lemma getVenueCategory_fetched_A:
  "findCategory venues i = Some ''A'' \<or> findCategory venues i = Some ''auto_approval''
   \<Longrightarrow> getVenueCategory venues VENUES i = Some ''A''"
  by (auto simp add: getVenueCategory_def normalizeVenueCategory_def truthy_def)

lemma getVenueCategory_fallback:
  "findCategory venues i = None \<or> findCategory venues i = Some []
   \<Longrightarrow> getVenueCategory venues VENUES i = findCategory VENUES i"
  by (auto simp add: getVenueCategory_def normalizeVenueCategory_def truthy_def)

lemma findCategory_unknown: "i \<notin> v_id ` set vs \<Longrightarrow> findCategory vs i = None"
proof -
  assume "i \<notin> v_id ` set vs"
  then have "find (\<lambda>v. v_id v = i) vs = None" by (auto simp add: find_None_iff)
  then show ?thesis by (simp add: findCategory_def)
qed

lemma hasCategoryB_iff:
  "list_ex isCategoryB (map (getVenueCategory venues VENUES) ids)
     = (\<exists>i \<in> set ids. getVenueCategory venues VENUES i = Some ''B''
                       \<or> getVenueCategory venues VENUES i = Some ''needs_approval'')"
  by (simp add: list_ex_iff isCategoryB_def)

lemma venuePermission_hasErrors: "hasErrors (venuePermission venues VENUES fd w) = hasErrors w"
  by (simp add: venuePermission_def hasErrors_def Let_def)

text \<open>
  Claim C4. An empty selection clears the venue message and its tag. A
  non-empty selection with at least one venue that resolves to category B (or
  to the legacy spelling needs_approval) gets the requires-approval message
  tagged warning, however many other venues are selected; a non-empty
  selection whose venues all resolve to category A (or auto_approval) gets the
  direct-booking message tagged success. A fetched category B or
  needs_approval resolves to B, a fetched A or auto_approval to A. The effect
  never changes \<^verbatim>\<open>hasErrors\<close>.
\<close>

theorem venue_approval_classifier:
  "(venueIds fd = [] \<longrightarrow>
      venue (venuePermission venues VENUES fd w) = []
      \<and> venueType (venuePermission venues VENUES fd w) = [])
   \<and> (venueIds fd \<noteq> [] \<and>
       (\<exists>i \<in> set (venueIds fd). getVenueCategory venues VENUES i = Some ''B''
                                 \<or> getVenueCategory venues VENUES i = Some ''needs_approval'') \<longrightarrow>
      venue (venuePermission venues VENUES fd w)
        = ''Includes Category B Venue(s): Requires Sleazzy Convener & Faculty Approval.''
      \<and> venueType (venuePermission venues VENUES fd w) = ''warning'')
   \<and> (venueIds fd \<noteq> [] \<and>
       (\<forall>i \<in> set (venueIds fd). getVenueCategory venues VENUES i = Some ''A''
                                 \<or> getVenueCategory venues VENUES i = Some ''auto_approval'') \<longrightarrow>
      venue (venuePermission venues VENUES fd w)
        = ''Category A Venues: Direct booking available (Subject to vacancy).''
      \<and> venueType (venuePermission venues VENUES fd w) = ''success'')
   \<and> (findCategory venues j = Some ''B'' \<or> findCategory venues j = Some ''needs_approval'' \<longrightarrow>
      getVenueCategory venues VENUES j = Some ''B'')
   \<and> (findCategory venues j = Some ''A'' \<or> findCategory venues j = Some ''auto_approval'' \<longrightarrow>
      getVenueCategory venues VENUES j = Some ''A'')
   \<and> hasErrors (venuePermission venues VENUES fd w) = hasErrors w"
proof -
  have empty: "venueIds fd = [] \<longrightarrow>
      venue (venuePermission venues VENUES fd w) = []
      \<and> venueType (venuePermission venues VENUES fd w) = []"
    by (simp add: venuePermission_def)
  have restricted: "venueIds fd \<noteq> [] \<and>
       (\<exists>i \<in> set (venueIds fd). getVenueCategory venues VENUES i = Some ''B''
                                 \<or> getVenueCategory venues VENUES i = Some ''needs_approval'') \<longrightarrow>
      venue (venuePermission venues VENUES fd w)
        = ''Includes Category B Venue(s): Requires Sleazzy Convener & Faculty Approval.''
      \<and> venueType (venuePermission venues VENUES fd w) = ''warning''"
    by (simp add: venuePermission_def Let_def hasCategoryB_iff)
  have direct: "venueIds fd \<noteq> [] \<and>
       (\<forall>i \<in> set (venueIds fd). getVenueCategory venues VENUES i = Some ''A''
                                 \<or> getVenueCategory venues VENUES i = Some ''auto_approval'') \<longrightarrow>
      venue (venuePermission venues VENUES fd w)
        = ''Category A Venues: Direct booking available (Subject to vacancy).''
      \<and> venueType (venuePermission venues VENUES fd w) = ''success''"
  proof (intro impI, elim conjE)
    assume ne: "venueIds fd \<noteq> []"
      and all: "\<forall>i \<in> set (venueIds fd). getVenueCategory venues VENUES i = Some ''A''
                                 \<or> getVenueCategory venues VENUES i = Some ''auto_approval''"
    have "\<not> list_ex isCategoryB (map (getVenueCategory venues VENUES) (venueIds fd))"
      unfolding hasCategoryB_iff using all by fastforce
    with ne show "venue (venuePermission venues VENUES fd w)
        = ''Category A Venues: Direct booking available (Subject to vacancy).''
      \<and> venueType (venuePermission venues VENUES fd w) = ''success''"
      by (simp add: venuePermission_def Let_def)
  qed
  from empty restricted direct getVenueCategory_fetched_B [of venues j VENUES]
    getVenueCategory_fetched_A [of venues j VENUES] venuePermission_hasErrors [of venues VENUES fd w]
  show ?thesis by blast
qed

text \<open>
  In the example catalog v1 is fetched as auto_approval, v2 as needs_approval,
  v3 is fetched without a category and is A in the static list, v4 is known to
  the static list only, as B, and v9 is unknown to both.
\<close>

lemma example_categories:
  "getVenueCategory exampleVenues exampleStaticVenues ''v1'' = Some ''A''"
  "getVenueCategory exampleVenues exampleStaticVenues ''v2'' = Some ''B''"
  "getVenueCategory exampleVenues exampleStaticVenues ''v3'' = Some ''A''"
  "getVenueCategory exampleVenues exampleStaticVenues ''v4'' = Some ''B''"
  "getVenueCategory exampleVenues exampleStaticVenues ''v9'' = None"
  by (simp_all add: getVenueCategory_def findCategory_def normalizeVenueCategory_def truthy_def
      exampleVenues_def exampleStaticVenues_def)

text \<open>
  An empty selection clears an earlier message; v1, v2, v3 together are tagged
  warning and do not block the submission; v1 and v3 together are tagged
  success.
\<close>

theorem venue_approval_classifier_witness:
  "venue (venuePermission exampleVenues exampleStaticVenues (draftD1\<lparr>venueIds := []\<rparr>)
      (initialWarnings\<lparr>venue := ''x'', venueType := ''warning''\<rparr>)) = []
   \<and> venueType (venuePermission exampleVenues exampleStaticVenues
        (draftD1\<lparr>venueIds := [''v1'', ''v2'', ''v3'']\<rparr>) initialWarnings) = ''warning''
   \<and> venueType (venuePermission exampleVenues exampleStaticVenues
        (draftD1\<lparr>venueIds := [''v1'', ''v3'']\<rparr>) initialWarnings) = ''success''
   \<and> \<not> hasErrors (venuePermission exampleVenues exampleStaticVenues
        (draftD1\<lparr>venueIds := [''v1'', ''v2'', ''v3'']\<rparr>) initialWarnings)"
  using venue_approval_classifier [where fd = "draftD1\<lparr>venueIds := []\<rparr>"
      and venues = exampleVenues and VENUES = exampleStaticVenues
      and w = "initialWarnings\<lparr>venue := ''x'', venueType := ''warning''\<rparr>"]
    venue_approval_classifier [where fd = "draftD1\<lparr>venueIds := [''v1'', ''v2'', ''v3'']\<rparr>"
      and venues = exampleVenues and VENUES = exampleStaticVenues and w = initialWarnings]
    venue_approval_classifier [where fd = "draftD1\<lparr>venueIds := [''v1'', ''v3'']\<rparr>"
      and venues = exampleVenues and VENUES = exampleStaticVenues and w = initialWarnings]
  by (simp add: example_categories draftD1_def hasErrors_def truthy_def initialWarnings_def)

text \<open>
  Claim C10. A non-empty selection in which no identifier resolves (fetched
  list first, normalised, then the static list) to B or needs_approval gets
  the direct-booking message tagged success. In particular an identifier whose
  category is missing in both lists, or that neither list knows, resolves to
  no category, so it never brings the requires-approval warning.
\<close>

theorem unresolved_venues_are_direct:
  "(venueIds fd \<noteq> [] \<and>
    (\<forall>i \<in> set (venueIds fd). getVenueCategory venues VENUES i \<noteq> Some ''B''
                              \<and> getVenueCategory venues VENUES i \<noteq> Some ''needs_approval'') \<longrightarrow>
      venue (venuePermission venues VENUES fd w)
        = ''Category A Venues: Direct booking available (Subject to vacancy).''
      \<and> venueType (venuePermission venues VENUES fd w) = ''success'')
   \<and> (findCategory venues j = None \<and> findCategory VENUES j = None \<longrightarrow>
        getVenueCategory venues VENUES j = None)
   \<and> (j \<notin> v_id ` set venues \<and> j \<notin> v_id ` set VENUES \<longrightarrow>
        getVenueCategory venues VENUES j = None)"
proof -
  have direct: "venueIds fd \<noteq> [] \<and>
    (\<forall>i \<in> set (venueIds fd). getVenueCategory venues VENUES i \<noteq> Some ''B''
                              \<and> getVenueCategory venues VENUES i \<noteq> Some ''needs_approval'') \<longrightarrow>
      venue (venuePermission venues VENUES fd w)
        = ''Category A Venues: Direct booking available (Subject to vacancy).''
      \<and> venueType (venuePermission venues VENUES fd w) = ''success''"
    by (simp add: venuePermission_def Let_def hasCategoryB_iff)
  have missing: "findCategory venues j = None \<and> findCategory VENUES j = None \<longrightarrow>
        getVenueCategory venues VENUES j = None"
    by (simp add: getVenueCategory_fallback)
  have unknown: "j \<notin> v_id ` set venues \<and> j \<notin> v_id ` set VENUES \<longrightarrow>
        getVenueCategory venues VENUES j = None"
    using findCategory_unknown [of j venues] findCategory_unknown [of j VENUES]
    by (simp add: getVenueCategory_fallback)
  from direct missing unknown show ?thesis by blast
qed

text \<open>The unknown v9 together with v3, which falls back to the static list, is tagged success.\<close>

theorem unresolved_venues_are_direct_witness:
  "venueType (venuePermission exampleVenues exampleStaticVenues
        (draftD1\<lparr>venueIds := [''v9'', ''v3'']\<rparr>) initialWarnings) = ''success''
   \<and> venue (venuePermission exampleVenues exampleStaticVenues
        (draftD1\<lparr>venueIds := [''v9'', ''v3'']\<rparr>) initialWarnings)
        = ''Category A Venues: Direct booking available (Subject to vacancy).''
   \<and> getVenueCategory exampleVenues exampleStaticVenues ''v9'' = None"
  using unresolved_venues_are_direct [where fd = "draftD1\<lparr>venueIds := [''v9'', ''v3'']\<rparr>"
      and venues = exampleVenues and VENUES = exampleStaticVenues and w = initialWarnings
      and j = "''v9''"]
  by (simp add: example_categories draftD1_def)

subsection \<open>Conflict check\<close>

lemma settle_fresh:
  "warnings (settle api (length (inflight s)) (s\<lparr>inflight := inflight s @ [q]\<rparr>))
     = checkConflictsResult (api q) (warnings s)"
  by (simp add: settle_def)

lemma conflictLogic_complete:
  "date fd = Some d \<Longrightarrow> startTime fd \<noteq> [] \<Longrightarrow> endTime fd \<noteq> [] \<Longrightarrow> clubName fd \<noteq> [] \<Longrightarrow>
   conflictLogic clubs fd s = s\<lparr>inflight := inflight s @ [buildQuery clubs fd d]\<rparr>"
  by (simp add: conflictLogic_def truthy_def)

text \<open>
  Claim C5. For a draft with date, start time, end time and club present, the
  effect sends the request and leaves the warnings alone until it settles.
  When the request fails, the Conflict slot becomes the could-not-verify
  message and \<^verbatim>\<open>hasErrors\<close> holds, so the submission is blocked. When the
  authority answers with a conflict, the slot becomes the authority's message
  (which blocks exactly when it is not empty, or another warning is present);
  when it answers without a conflict, the slot is cleared.
\<close>

theorem conflict_check_fails_closed:
  "date fd = Some d \<Longrightarrow> startTime fd \<noteq> [] \<Longrightarrow> endTime fd \<noteq> [] \<Longrightarrow> clubName fd \<noteq> [] \<Longrightarrow>
   warnings (conflictLogic clubs fd s) = warnings s
   \<and> inflight (conflictLogic clubs fd s) = inflight s @ [buildQuery clubs fd d]
   \<and> (api (buildQuery clubs fd d) = Threw \<longrightarrow>
        conflict (warnings (settle api (length (inflight s)) (conflictLogic clubs fd s)))
          = ''Could not verify conflicts. Please check your connection and try again.''
        \<and> hasErrors (warnings (settle api (length (inflight s)) (conflictLogic clubs fd s))))
   \<and> (api (buildQuery clubs fd d) = Response True message \<longrightarrow>
        conflict (warnings (settle api (length (inflight s)) (conflictLogic clubs fd s))) = message
        \<and> hasErrors (warnings (settle api (length (inflight s)) (conflictLogic clubs fd s)))
            = (message \<noteq> [] \<or> timeline (warnings s) \<noteq> [] \<or> hours (warnings s) \<noteq> []))
   \<and> (api (buildQuery clubs fd d) = Response False message \<longrightarrow>
        conflict (warnings (settle api (length (inflight s)) (conflictLogic clubs fd s))) = [])"
proof -
  assume a: "date fd = Some d" "startTime fd \<noteq> []" "endTime fd \<noteq> []" "clubName fd \<noteq> []"
  have issue: "conflictLogic clubs fd s = s\<lparr>inflight := inflight s @ [buildQuery clubs fd d]\<rparr>"
    using a by (rule conflictLogic_complete)
  have settled: "warnings (settle api (length (inflight s)) (conflictLogic clubs fd s))
     = checkConflictsResult (api (buildQuery clubs fd d)) (warnings s)"
    unfolding issue by (rule settle_fresh)
  show ?thesis
    unfolding settled unfolding issue
    by (auto simp add: checkConflictsResult_def hasErrors_def truthy_def)
qed

text \<open>
  For \<open>draftD1\<close>: a failed request leaves the could-not-verify message and
  blocks; the authority's conflict message is shown as sent; for \<open>draftD2\<close>,
  which has no conflict, an earlier conflict message is cleared.
\<close>

theorem conflict_check_fails_closed_witness:
  "conflict (warnings (settle (\<lambda>q. Threw) 0
      (conflictLogic exampleClubs draftD1 \<lparr>warnings = initialWarnings, inflight = []\<rparr>)))
     = ''Could not verify conflicts. Please check your connection and try again.''
   \<and> hasErrors (warnings (settle (\<lambda>q. Threw) 0
      (conflictLogic exampleClubs draftD1 \<lparr>warnings = initialWarnings, inflight = []\<rparr>)))
   \<and> conflict (warnings (settle exampleAuthority 0
      (conflictLogic exampleClubs draftD1 \<lparr>warnings = initialWarnings, inflight = []\<rparr>)))
     = ''Lecture Hall is already booked.''
   \<and> conflict (warnings (settle exampleAuthority 0
      (conflictLogic exampleClubs draftD2
         \<lparr>warnings = initialWarnings\<lparr>conflict := ''Lecture Hall is already booked.''\<rparr>,
          inflight = []\<rparr>))) = []"
  using conflict_check_fails_closed [where fd = draftD1 and d = 20761 and clubs = exampleClubs
      and api = "\<lambda>q. Threw" and s = "\<lparr>warnings = initialWarnings, inflight = []\<rparr>"]
    conflict_check_fails_closed [where fd = draftD1 and d = 20761 and clubs = exampleClubs
      and api = exampleAuthority and s = "\<lparr>warnings = initialWarnings, inflight = []\<rparr>"
      and message = "''Lecture Hall is already booked.''"]
    conflict_check_fails_closed [where fd = draftD2 and d = 20761 and clubs = exampleClubs
      and api = exampleAuthority
      and s = "\<lparr>warnings = initialWarnings\<lparr>conflict := ''Lecture Hall is already booked.''\<rparr>, inflight = []\<rparr>"
      and message = "[]"]
  by (simp add: draftD1_def draftD2_def exampleAuthority_def buildQuery_def exampleClubs_def)

lemma settle_conflict:
  "i < length (inflight s) \<Longrightarrow>
   conflict (warnings (settle api i s)) = conflict (checkConflictsResult (api (inflight s ! i)) w)"
  by (simp add: settle_def checkConflictsResult_def split: ApiResult.splits)

text \<open>
  Claim C6, as stated, fails: there is no staleness guard. The requests for
  \<open>draftD1\<close> and then \<open>draftD2\<close> are both in flight; the response for
  \<open>draftD2\<close> (no conflict) settles first and the late response for \<open>draftD1\<close>
  settles after it. The final Conflict slot holds the conflict message of
  \<open>draftD1\<close>, while the result for the current draft \<open>draftD2\<close> is no conflict.
\<close>

theorem stale_response_overwrites:
  "conflict (warnings (settle exampleAuthority 0 (settle exampleAuthority 1
      (conflictLogic exampleClubs draftD2
        (conflictLogic exampleClubs draftD1 \<lparr>warnings = initialWarnings, inflight = []\<rparr>)))))
     = ''Lecture Hall is already booked.''
   \<and> exampleAuthority (buildQuery exampleClubs draftD2 20761) = Response False []
   \<and> conflict (checkConflictsResult (exampleAuthority (buildQuery exampleClubs draftD2 20761))
        initialWarnings) = []"
  by (simp add: conflictLogic_def settle_def checkConflictsResult_def truthy_def
      draftD1_def draftD2_def exampleAuthority_def buildQuery_def exampleClubs_def)

text \<open>
  Claim C6, amended. A response that settles always overwrites the Conflict
  slot with its own result, whichever draft it was requested for and whatever
  the slot held: the response that settles last decides. For two complete
  drafts whose requests are both in flight, the final slot reflects the second
  draft when the responses settle in the order of the requests, and the first
  draft when its response settles last.
\<close>

theorem last_settled_response_wins:
  "(i < length (inflight s) \<longrightarrow>
      conflict (warnings (settle api i s))
        = conflict (checkConflictsResult (api (inflight s ! i)) w))
   \<and> (date fda = Some da \<and> startTime fda \<noteq> [] \<and> endTime fda \<noteq> [] \<and> clubName fda \<noteq> [] \<and>
       date fdb = Some db \<and> startTime fdb \<noteq> [] \<and> endTime fdb \<noteq> [] \<and> clubName fdb \<noteq> [] \<longrightarrow>
      conflict (warnings (settle api 0 (settle api 0
          (conflictLogic clubs fdb (conflictLogic clubs fda \<lparr>warnings = wp, inflight = []\<rparr>)))))
        = conflict (checkConflictsResult (api (buildQuery clubs fdb db)) w)
      \<and> conflict (warnings (settle api 0 (settle api 1
          (conflictLogic clubs fdb (conflictLogic clubs fda \<lparr>warnings = wp, inflight = []\<rparr>)))))
        = conflict (checkConflictsResult (api (buildQuery clubs fda da)) w))"
proof -
  have one: "i < length (inflight s) \<longrightarrow>
      conflict (warnings (settle api i s))
        = conflict (checkConflictsResult (api (inflight s ! i)) w)"
    by (simp add: settle_conflict)
  have two: "date fda = Some da \<and> startTime fda \<noteq> [] \<and> endTime fda \<noteq> [] \<and> clubName fda \<noteq> [] \<and>
       date fdb = Some db \<and> startTime fdb \<noteq> [] \<and> endTime fdb \<noteq> [] \<and> clubName fdb \<noteq> [] \<longrightarrow>
      conflict (warnings (settle api 0 (settle api 0
          (conflictLogic clubs fdb (conflictLogic clubs fda \<lparr>warnings = wp, inflight = []\<rparr>)))))
        = conflict (checkConflictsResult (api (buildQuery clubs fdb db)) w)
      \<and> conflict (warnings (settle api 0 (settle api 1
          (conflictLogic clubs fdb (conflictLogic clubs fda \<lparr>warnings = wp, inflight = []\<rparr>)))))
        = conflict (checkConflictsResult (api (buildQuery clubs fda da)) w)"
    by (simp add: conflictLogic_complete settle_def checkConflictsResult_def split: ApiResult.splits)
  from one two show ?thesis by blast
qed

text \<open>
  In request order the slot ends empty, the result for \<open>draftD2\<close>; in the
  reversed order it ends with the conflict message of \<open>draftD1\<close>.
\<close>

theorem last_settled_response_wins_witness:
  "conflict (warnings (settle exampleAuthority 0 (settle exampleAuthority 0
      (conflictLogic exampleClubs draftD2
        (conflictLogic exampleClubs draftD1 \<lparr>warnings = initialWarnings, inflight = []\<rparr>))))) = []
   \<and> conflict (warnings (settle exampleAuthority 0 (settle exampleAuthority 1
      (conflictLogic exampleClubs draftD2
        (conflictLogic exampleClubs draftD1 \<lparr>warnings = initialWarnings, inflight = []\<rparr>)))))
     = ''Lecture Hall is already booked.''"
  using last_settled_response_wins [where fda = draftD1 and da = 20761 and fdb = draftD2 and db = 20761
      and clubs = exampleClubs and api = exampleAuthority and wp = initialWarnings
      and w = initialWarnings and i = 0 and s = "\<lparr>warnings = initialWarnings, inflight = []\<rparr>"]
  by (simp add: draftD1_def draftD2_def exampleAuthority_def buildQuery_def exampleClubs_def
      checkConflictsResult_def)

subsection \<open>The whole verdict\<close>

lemma runEffects_slots:
  "runEffects tz today venues VENUES clubs api fd w =
     warnings (settle api 0 (conflictLogic clubs fd
       \<lparr>warnings = operatingHours tz fd (venuePermission venues VENUES fd (timelineValidation today fd w)),
        inflight = []\<rparr>))"
  by (simp add: runEffects_def Let_def)

text \<open>
  Claim C7. The verdict is not a function of the draft, the catalog, today and
  the conflict result alone. (1) The time zone of the browser enters through
  \<^verbatim>\<open>getDay()\<close>: for the same Saturday draft, the same instant, catalog and
  authority, the run at UTC-5 ends with the weekday Hours message while the run
  at UTC+5:30 ends with an empty Hours slot and a submittable verdict. (2) The
  previous warnings enter when no date is selected: on \<open>clearedDraft\<close> the
  Timeline slot of the result is whatever it was before the run.
\<close>

theorem verdict_depends_on_ambient_state:
  "hours (runEffects (- 300) noon_2026_11_02 exampleVenues exampleStaticVenues exampleClubs
       exampleAuthority saturdayDraft initialWarnings)
     = ''On weekdays, bookings are only allowed from 4:00 PM to 12:00 AM.''
   \<and> runEffects 330 noon_2026_11_02 exampleVenues exampleStaticVenues exampleClubs
       exampleAuthority saturdayDraft initialWarnings
     = \<lparr>timeline = [], conflict = [],
        venue = ''Category A Venues: Direct booking available (Subject to vacancy).'',
        venueType = ''success'', hours = []\<rparr>
   \<and> timeline (runEffects 330 noon_2026_11_02 exampleVenues exampleStaticVenues exampleClubs
       exampleAuthority clearedDraft
       (initialWarnings\<lparr>timeline := ''Closed club events must be booked at least 1 day in advance.''\<rparr>))
     = ''Closed club events must be booked at least 1 day in advance.''
   \<and> timeline (runEffects 330 noon_2026_11_02 exampleVenues exampleStaticVenues exampleClubs
       exampleAuthority clearedDraft initialWarnings) = []"
proof -
  have dd: "diffDays 20764 noon_2026_11_02 = 5"
    by (simp add: diffDays_calendar noon_2026_11_02_def msPerDay_def)
  have west: "hours (runEffects (- 300) noon_2026_11_02 exampleVenues exampleStaticVenues exampleClubs
       exampleAuthority saturdayDraft initialWarnings)
     = ''On weekdays, bookings are only allowed from 4:00 PM to 12:00 AM.''"
    by (simp add: runEffects_slots conflictLogic_def settle_def checkConflictsResult_def
        operatingHours_def hoursMessage_def getDay_def truthy_def saturdayDraft_def
        exampleAuthority_def buildQuery_def split: ApiResult.splits)
  have east: "runEffects 330 noon_2026_11_02 exampleVenues exampleStaticVenues exampleClubs
       exampleAuthority saturdayDraft initialWarnings
     = \<lparr>timeline = [], conflict = [],
        venue = ''Category A Venues: Direct booking available (Subject to vacancy).'',
        venueType = ''success'', hours = []\<rparr>"
    by (simp add: runEffects_slots conflictLogic_def settle_def checkConflictsResult_def
        operatingHours_def hoursMessage_def getDay_def truthy_def saturdayDraft_def
        exampleAuthority_def buildQuery_def timelineValidation_def timelineMessage_def dd
        venuePermission_def example_categories isCategoryB_def initialWarnings_def)
  have stale: "timeline (runEffects 330 noon_2026_11_02 exampleVenues exampleStaticVenues exampleClubs
       exampleAuthority clearedDraft
       (initialWarnings\<lparr>timeline := ''Closed club events must be booked at least 1 day in advance.''\<rparr>))
     = ''Closed club events must be booked at least 1 day in advance.''"
    by (simp add: runEffects_slots conflictLogic_def settle_def operatingHours_def
        timelineValidation_def venuePermission_def clearedDraft_def Let_def)
  have fresh: "timeline (runEffects 330 noon_2026_11_02 exampleVenues exampleStaticVenues exampleClubs
       exampleAuthority clearedDraft initialWarnings) = []"
    by (simp add: runEffects_slots conflictLogic_def settle_def operatingHours_def
        timelineValidation_def venuePermission_def clearedDraft_def Let_def initialWarnings_def)
  from west east stale fresh show ?thesis by blast
qed

text \<open>The same inputs are blocked at UTC-5 and submittable at UTC+5:30.\<close>

theorem verdict_depends_on_ambient_state_witness:
  "hasErrors (runEffects (- 300) noon_2026_11_02 exampleVenues exampleStaticVenues exampleClubs
       exampleAuthority saturdayDraft initialWarnings)
   \<and> \<not> hasErrors (runEffects 330 noon_2026_11_02 exampleVenues exampleStaticVenues exampleClubs
       exampleAuthority saturdayDraft initialWarnings)"
  using verdict_depends_on_ambient_state by (simp add: hasErrors_def truthy_def)

text \<open>Each effect writes its own slots and nothing else.\<close>

lemma timelineValidation_slot:
  "date fd = Some d \<Longrightarrow>
   timelineValidation today fd w = w\<lparr>timeline := timeline (timelineValidation today fd u)\<rparr>"
  by (simp add: timelineValidation_def)

lemma venuePermission_slot:
  "venuePermission venues VENUES fd w
     = w\<lparr>venue := venue (venuePermission venues VENUES fd u),
         venueType := venueType (venuePermission venues VENUES fd u)\<rparr>"
  by (simp add: venuePermission_def Let_def)

lemma operatingHours_slot:
  "operatingHours tz fd w = w\<lparr>hours := hours (operatingHours tz fd u)\<rparr>"
  by (simp add: operatingHours_def Let_def split: option.splits)

lemma conflictLogic_incomplete:
  "date fd = None \<or> startTime fd = [] \<or> endTime fd = [] \<or> clubName fd = [] \<Longrightarrow>
   conflictLogic clubs fd s = s\<lparr>warnings := (warnings s)\<lparr>conflict := []\<rparr>\<rparr>"
  by (auto simp add: conflictLogic_def truthy_def split: option.splits)

lemma checkConflictsResult_slot:
  "checkConflictsResult r w = w\<lparr>conflict := conflict (checkConflictsResult r u)\<rparr>"
  by (cases r) (simp_all add: checkConflictsResult_def)

lemma conflict_slot:
  "warnings (settle api 0 (conflictLogic clubs fd \<lparr>warnings = w, inflight = []\<rparr>))
     = w\<lparr>conflict := conflict (warnings (settle api 0
           (conflictLogic clubs fd \<lparr>warnings = u, inflight = []\<rparr>)))\<rparr>"
proof (cases "date fd = None \<or> startTime fd = [] \<or> endTime fd = [] \<or> clubName fd = []")
  case True
  then show ?thesis
    by (simp add: conflictLogic_incomplete settle_def)
next
  case False
  then obtain d where d: "date fd = Some d" by auto
  from False have ne: "startTime fd \<noteq> []" "endTime fd \<noteq> []" "clubName fd \<noteq> []" by auto
  have sent: "conflictLogic clubs fd \<lparr>warnings = x, inflight = []\<rparr>
      = \<lparr>warnings = x, inflight = [buildQuery clubs fd d]\<rparr>" for x
    using conflictLogic_complete [OF d ne, of clubs "\<lparr>warnings = x, inflight = []\<rparr>"] by simp
  have "warnings (settle api 0 \<lparr>warnings = x, inflight = [buildQuery clubs fd d]\<rparr>)
      = checkConflictsResult (api (buildQuery clubs fd d)) x" for x
    by (simp add: settle_def)
  then show ?thesis
    unfolding sent using checkConflictsResult_slot [of "api (buildQuery clubs fd d)" w u] by simp
qed

text \<open>
  With a date selected, a full run overwrites all five slots: for a fixed time
  zone, instant, catalog, club list and authority, the resulting verdict is the
  same whatever the warnings were before the run.
\<close>

theorem verdict_forgets_previous_warnings:
  "date fd = Some d \<Longrightarrow>
   runEffects tz today venues VENUES clubs api fd w
     = runEffects tz today venues VENUES clubs api fd w'"
proof -
  assume sel: "date fd = Some d"
  have shape: "runEffects tz today venues VENUES clubs api fd x =
      \<lparr>timeline = timeline (timelineValidation today fd initialWarnings),
       conflict = conflict (warnings (settle api 0
           (conflictLogic clubs fd \<lparr>warnings = initialWarnings, inflight = []\<rparr>))),
       venue = venue (venuePermission venues VENUES fd initialWarnings),
       venueType = venueType (venuePermission venues VENUES fd initialWarnings),
       hours = hours (operatingHours tz fd initialWarnings)\<rparr>" for x
    unfolding runEffects_slots
    by (subst conflict_slot [where u = initialWarnings],
        subst operatingHours_slot [where u = initialWarnings],
        subst venuePermission_slot [where u = initialWarnings],
        subst timelineValidation_slot [OF sel, where u = initialWarnings])
      simp
  show ?thesis by (simp only: shape)
qed

text \<open>A run on \<open>saturdayDraft\<close> from a verdict full of old messages equals the run from the initial warnings.\<close>

theorem verdict_forgets_previous_warnings_witness:
  "runEffects 330 noon_2026_11_02 exampleVenues exampleStaticVenues exampleClubs exampleAuthority
     saturdayDraft
     \<lparr>timeline = ''Closed club events must be booked at least 1 day in advance.'',
      conflict = ''Lecture Hall is already booked.'', venue = ''x'', venueType = ''warning'',
      hours = ''End time must be after start time.''\<rparr>
   = runEffects 330 noon_2026_11_02 exampleVenues exampleStaticVenues exampleClubs exampleAuthority
     saturdayDraft initialWarnings"
  using verdict_forgets_previous_warnings [where fd = saturdayDraft and d = 20764]
  by (simp add: saturdayDraft_def)

subsection \<open>The Timeline slot on the states the page reaches\<close>

text \<open>No effect but the timeline effect, and no answer of the authority, writes the Timeline slot.\<close>

lemma timeline_venuePermission:
  "timeline (venuePermission venues VENUES fd w) = timeline w"
  by (simp add: venuePermission_def Let_def)

lemma timeline_operatingHours: "timeline (operatingHours tz fd w) = timeline w"
  by (simp add: operatingHours_def Let_def split: option.splits)

lemma timeline_conflictLogic:
  "timeline (warnings (conflictLogic clubs fd s)) = timeline (warnings s)"
  by (simp add: conflictLogic_def split: option.splits)

lemma timeline_settle: "timeline (warnings (settle api i s)) = timeline (warnings s)"
  by (cases "api (inflight s ! i)") (simp_all add: settle_def checkConflictsResult_def)

lemma timeline_rerun:
  "timeline (warnings (rerun env toggled old new s)) =
     (if date new \<noteq> date old \<or> eventType new \<noteq> eventType old
      then timeline (timelineValidation (e_now env) new (warnings s))
      else timeline (warnings s))"
  by (simp add: rerun_def Let_def timeline_conflictLogic timeline_operatingHours
      timeline_venuePermission)

text \<open>Only the calendar writes the date, and it writes a date.\<close>

lemma date_applyEvent:
  "date (applyEvent e fd) = (case e of SelectDate d \<Rightarrow> Some d | _ \<Rightarrow> date fd)"
  by (cases e) (simp_all add: handleVenueToggle_def Let_def)

lemma date_step:
  "date (p_form (step env e p)) = (case e of SelectDate d \<Rightarrow> Some d | _ \<Rightarrow> date (p_form p))"
  by (cases e) (simp_all add: step_def Let_def handleVenueToggle_def)

lemma timeline_step_no_date:
  assumes "date (p_form (step env e p)) = None"
  shows "timeline (warnings (p_session (step env e p))) = timeline (warnings (p_session p))"
proof (cases e)
  case (Settle i)
  then show ?thesis by (simp add: step_def timeline_settle)
next
  case (SelectDate d)
  with assms show ?thesis by (simp add: date_step)
qed (use assms in \<open>simp_all add: step_def Let_def timeline_rerun timelineValidation_no_date
      handleVenueToggle_def\<close>)

lemma run_date_stays: "date (p_form p) \<noteq> None \<Longrightarrow> date (p_form (run es p)) \<noteq> None"
proof (induction es arbitrary: p)
  case Nil
  then show ?case by simp
next
  case (Cons x es)
  obtain env e where x: "x = (env, e)" by (cases x)
  from Cons.prems have "date (p_form (step env e p)) \<noteq> None"
    by (cases e) (simp_all add: date_step)
  then show ?case using Cons.IH x by simp
qed

lemma run_no_date_timeline:
  "date (p_form (run es p)) = None \<Longrightarrow>
   timeline (warnings (p_session (run es p))) = timeline (warnings (p_session p))"
proof (induction es arbitrary: p)
  case Nil
  then show ?case by simp
next
  case (Cons x es)
  obtain env e where x: "x = (env, e)" by (cases x)
  from Cons.prems x have later: "date (p_form (run es (step env e p))) = None" by simp
  then have now: "date (p_form (step env e p)) = None"
    using run_date_stays [of "step env e p" es] by blast
  from Cons.IH [OF later] timeline_step_no_date [OF now] x show ?case by simp
qed

text \<open>
  Claim C8. With no date selected the timeline effect evaluates nothing and
  raises nothing: it returns the warnings as they are. On every state the page
  reaches from its initial state, by any run of field changes, date picks,
  venue toggles and answers of the authority, no date selected means an empty
  Timeline slot. The page has no way to empty the date: once a date is
  selected, every later state has one, so a draft without a date is one on
  which no Timeline message was ever set.
\<close>

theorem no_date_no_timeline_warning:
  "(date fd = None \<longrightarrow> timelineValidation today fd w = w)
   \<and> (date (p_form (run es initialPage)) = None \<longrightarrow>
        timeline (warnings (p_session (run es initialPage))) = [])
   \<and> (date (p_form p) \<noteq> None \<longrightarrow> date (p_form (run es p)) \<noteq> None)"
proof -
  have "timeline (warnings (p_session initialPage)) = []"
    by (simp add: initialPage_def initialWarnings_def)
  with run_no_date_timeline [of es initialPage]
  have "date (p_form (run es initialPage)) = None \<longrightarrow>
        timeline (warnings (p_session (run es initialPage))) = []" by simp
  with timelineValidation_no_date [of fd today w] run_date_stays [of p es]
  show ?thesis by blast
qed

text \<open>
  After the event type, club, start time and a venue are set, the draft has no
  date and the Timeline slot is empty; once a date two days ahead is picked
  for a co-curricular event the message appears, and the date stays.
\<close>

theorem no_date_no_timeline_warning_witness:
  "date (p_form (run [(exampleEnv, ChangeEventType co_curricular),
                      (exampleEnv, ChangeClubName ''Chess Club''),
                      (exampleEnv, ChangeStartTime ''17:00''),
                      (exampleEnv, ToggleVenue ''v1'')] initialPage)) = None
   \<and> timeline (warnings (p_session (run [(exampleEnv, ChangeEventType co_curricular),
                      (exampleEnv, ChangeClubName ''Chess Club''),
                      (exampleEnv, ChangeStartTime ''17:00''),
                      (exampleEnv, ToggleVenue ''v1'')] initialPage))) = []
   \<and> date (p_form (run [(exampleEnv, ChangeEventType co_curricular),
                      (exampleEnv, SelectDate 20761),
                      (exampleEnv, ChangeEventType closed_club)] initialPage)) = Some 20761
   \<and> timeline (warnings (p_session (run [(exampleEnv, ChangeEventType co_curricular),
                      (exampleEnv, SelectDate 20761)] initialPage)))
       = ''Co-curricular events must be booked at least 30 days in advance.''"
  using no_date_no_timeline_warning [where es = "[(exampleEnv, ChangeEventType co_curricular),
                      (exampleEnv, ChangeClubName ''Chess Club''),
                      (exampleEnv, ChangeStartTime ''17:00''),
                      (exampleEnv, ToggleVenue ''v1'')]" and fd = initialFormData
      and w = initialWarnings and p = initialPage]
  by (simp add: step_def rerun_def Let_def initialPage_def initialFormData_def initialWarnings_def
      handleVenueToggle_def timelineValidation_def timelineMessage_def diffDays_calendar
      exampleEnv_def noon_2026_11_02_def msPerDay_def venuePermission_def operatingHours_def
      conflictLogic_def truthy_def)

end
